theory Spec2Isabelle
  imports Main "HOL-Library.Word"
begin

unbundle bit_operations_syntax

section \<open>The heap and the memory provider\<close>

text \<open>
  The allocator of \<^verbatim>\<open>mm.c\<close> keeps all of its data inside the simulated heap: words of
  32 bits (\<^verbatim>\<open>unsigned int\<close>) read and written through \<^verbatim>\<open>read_word\<close> and
  \<^verbatim>\<open>write_word\<close>. Memory is a function from byte addresses to the 32-bit word stored
  there; the allocator only touches addresses that are multiples of 4. A pointer
  (\<^verbatim>\<open>void *\<close>) is its address, a natural number; \<^verbatim>\<open>NULL\<close> is 0. A byte is a quarter of
  its word, little-endian as on the x86 the source's \<^verbatim>\<open>lzcntl\<close> belongs to.
\<close>

type_synonym memory = "nat \<Rightarrow> 32 word"

record heap =
  mem :: memory
  heap_last_ptr :: nat
  mem_brk :: nat
  mem_max :: nat

definition heap_base_ptr :: nat where
  "heap_base_ptr = 0x800000000"

definition EXTEND_SIZE :: "32 word" where
  "EXTEND_SIZE = 4096"

text \<open>
  Modelled from the spec: \<^verbatim>\<open>mem_sbrk\<close> of \<^verbatim>\<open>memlib.c\<close> is not in the repository's files.
  The provider extends the heap by \<open>incr\<close> bytes, or fails and leaves everything
  unchanged; \<open>mem_brk\<close> is the number of bytes handed out so far, and the provider fails
  when its capacity \<open>mem_max\<close> would be exceeded. \<open>None\<close> is the C value
  \<^verbatim>\<open>(void *)-1\<close>.
\<close>

definition mem_sbrk :: "heap \<Rightarrow> nat \<Rightarrow> heap option" where
  "mem_sbrk s incr =
     (if mem_brk s + incr \<le> mem_max s then Some (s\<lparr>mem_brk := mem_brk s + incr\<rparr>) else None)"

section \<open>Block encoding\<close>

definition read_word :: "memory \<Rightarrow> nat \<Rightarrow> 32 word" where
  "read_word m p = m p"

definition write_word :: "memory \<Rightarrow> nat \<Rightarrow> 32 word \<Rightarrow> memory" where
  "write_word m p v = m(p := v)"

definition get_header :: "memory \<Rightarrow> nat \<Rightarrow> 32 word" where
  "get_header m p = read_word m (p - 4)"

definition set_header :: "memory \<Rightarrow> nat \<Rightarrow> 32 word \<Rightarrow> memory" where
  "set_header m p h = write_word m (p - 4) h"

definition set_allocated_flag :: "memory \<Rightarrow> nat \<Rightarrow> memory" where
  "set_allocated_flag m p = set_header m p (get_header m p OR 1)"

definition unset_allocated_flag :: "memory \<Rightarrow> nat \<Rightarrow> memory" where
  "unset_allocated_flag m p = set_header m p (get_header m p AND NOT 1)"

definition set_forward_allocated_flag :: "memory \<Rightarrow> nat \<Rightarrow> memory" where
  "set_forward_allocated_flag m p = set_header m p (get_header m p OR 2)"

definition unset_forward_allocated_flag :: "memory \<Rightarrow> nat \<Rightarrow> memory" where
  "unset_forward_allocated_flag m p = set_header m p (get_header m p AND NOT 2)"

text \<open>A link is stored as the 32-bit offset of the target from \<open>heap_base_ptr\<close>.\<close>

definition set_prev :: "memory \<Rightarrow> nat \<Rightarrow> nat \<Rightarrow> memory" where
  "set_prev m p prev = write_word m p (word_of_int (int prev - int heap_base_ptr))"

definition set_next :: "memory \<Rightarrow> nat \<Rightarrow> nat \<Rightarrow> memory" where
  "set_next m p nxt = write_word m (p + 4) (word_of_int (int nxt - int heap_base_ptr))"

definition set_size :: "memory \<Rightarrow> nat \<Rightarrow> 32 word \<Rightarrow> memory" where
  "set_size m p sz =
     (let flag = get_header m p AND 7;
          m1 = set_header m p (sz OR flag)
      in write_word m1 (p + unat sz - 8) sz)"

definition set_size_only_header :: "memory \<Rightarrow> nat \<Rightarrow> 32 word \<Rightarrow> memory" where
  "set_size_only_header m p sz =
     (let flag = get_header m p AND 7 in set_header m p (sz OR flag))"

definition get_size :: "memory \<Rightarrow> nat \<Rightarrow> 32 word" where
  "get_size m p = get_header m p AND 0xfffffff8"

definition get_prev :: "memory \<Rightarrow> nat \<Rightarrow> nat" where
  "get_prev m p = heap_base_ptr + unat (read_word m p)"

definition get_next :: "memory \<Rightarrow> nat \<Rightarrow> nat" where
  "get_next m p = heap_base_ptr + unat (read_word m (p + 4))"

definition get_forward :: "memory \<Rightarrow> nat \<Rightarrow> nat" where
  "get_forward m p = p - unat (read_word m (p - 8))"

definition get_back :: "memory \<Rightarrow> nat \<Rightarrow> nat" where
  "get_back m p = p + unat (get_size m p)"

definition is_allocated :: "memory \<Rightarrow> nat \<Rightarrow> bool" where
  "is_allocated m p \<longleftrightarrow> get_header m p AND 1 \<noteq> 0"

definition is_forward_allocated :: "memory \<Rightarrow> nat \<Rightarrow> bool" where
  "is_forward_allocated m p \<longleftrightarrow> get_header m p AND 2 = 2"

section \<open>Size classes and list operations\<close>

definition delete_block :: "memory \<Rightarrow> nat \<Rightarrow> memory" where
  "delete_block m p =
     (let prev = get_prev m p;
          nxt = get_next m p;
          m1 = set_next m prev nxt
      in set_prev m1 nxt prev)"

text \<open>The number of binary digits of a number; \<^verbatim>\<open>lzcntl\<close> counts the leading zero bits
  of a 32-bit word, 32 for the word 0.\<close>

fun bit_count :: "nat \<Rightarrow> nat" where
  "bit_count n = (if n = 0 then 0 else Suc (bit_count (n div 2)))"

declare bit_count.simps [simp del]

definition get_index :: "32 word \<Rightarrow> 32 word" where
  "get_index aligned_size = of_nat (32 - bit_count (unat aligned_size))"

text \<open>
  The table \<^verbatim>\<open>begins\<close> as \<^verbatim>\<open>mm_init\<close> fills it: entries 27 down to 12 are the list heads at
  offsets 0, 8, ..., 120 of the heap, entries 11 down to 0 are the head at offset 120 again,
  and entries 28 to 31 of the static array stay \<^verbatim>\<open>NULL\<close>. \<open>None\<close> is an index outside the
  array of 32 entries.
\<close>

definition begins :: "32 word \<Rightarrow> nat option" where
  "begins i =
     (if i \<le> 11 then Some (heap_base_ptr + 120)
      else if i \<le> 27 then Some (heap_base_ptr + (27 - unat i) * 8)
      else if i \<le> 31 then Some 0
      else None)"

definition list_min_block_size :: "nat \<Rightarrow> 32 word" where
  "list_min_block_size i = (if 12 \<le> i \<and> i \<le> 27 then push_bit (31 - i) 1 else 0)"

definition list_max_block_size :: "nat \<Rightarrow> 32 word" where
  "list_max_block_size i =
     (if i = 12 then 4294967295
      else if 12 < i \<and> i \<le> 27 then push_bit (32 - i) 1 else 0)"

text \<open>
  \<open>None\<close> is a run that does not return normally: here the list head is read outside the
  table, or is the null pointer of entries 28 to 31, which \<^verbatim>\<open>get_prev\<close> dereferences.
\<close>

definition insert_block :: "memory \<Rightarrow> nat \<Rightarrow> 32 word \<Rightarrow> memory option" where
  "insert_block m p sz =
     (case begins (get_index sz) of
        None \<Rightarrow> None
      | Some e \<Rightarrow>
          if e = 0 then None
          else
            (let prev = get_prev m e;
                 m1 = set_prev m e p;
                 m2 = set_prev m1 p prev;
                 m3 = set_next m2 p e
             in Some (set_next m3 prev p)))"

section \<open>Placement\<close>

definition place :: "memory \<Rightarrow> 32 word \<Rightarrow> nat \<Rightarrow> 32 word \<Rightarrow> (nat \<times> memory) option" where
  "place m aligned_size p block_size =
     (let remain_size = block_size - aligned_size in
      if remain_size < 16 then
        (let m1 = set_allocated_flag m p;
             m2 = set_forward_allocated_flag m1 (get_back m1 p)
         in Some (p, m2))
      else
        (let m1 = set_size m p aligned_size;
             m2 = set_allocated_flag m1 p;
             new_back = get_back m2 p;
             m3 = set_size m2 new_back remain_size;
             m4 = unset_allocated_flag m3 new_back;
             m5 = set_forward_allocated_flag m4 new_back
         in case insert_block m5 new_back remain_size of
              None \<Rightarrow> None
            | Some m6 \<Rightarrow> Some (p, m6)))"

text \<open>\<^verbatim>\<open>size_t\<close> is 64 bits wide; the cast to \<^verbatim>\<open>unsigned int\<close> keeps the low 32 bits.\<close>

definition align_size :: "64 word \<Rightarrow> 32 word" where
  "align_size sz =
     (if sz = 448 then 520
      else
        (let tmp_aligned_size = (ucast sz + 11) AND NOT 7
         in if tmp_aligned_size < 16 then 16 else tmp_aligned_size))"


text \<open>Splitting an allocated block (for \<^verbatim>\<open>mm_realloc\<close>); the rest is merged with a free
  block behind it.\<close>

definition shrink :: "memory \<Rightarrow> 32 word \<Rightarrow> nat \<Rightarrow> 32 word \<Rightarrow> (nat \<times> memory) option" where
  "shrink m aligned_size p block_size =
     (let remain_size = block_size - aligned_size in
      if remain_size < 16 then Some (p, m)
      else
        (let m1 = set_size_only_header m p aligned_size;
             new_back = get_back m1 p;
             m2 = unset_allocated_flag m1 new_back;
             m3 = set_size m2 new_back remain_size;
             m4 = set_forward_allocated_flag m3 new_back;
             back_of_new_back = get_back m4 new_back
         in if is_allocated m4 back_of_new_back then
              (case insert_block m4 new_back remain_size of
                 None \<Rightarrow> None
               | Some m5 \<Rightarrow> Some (p, unset_forward_allocated_flag m5 (get_back m5 new_back)))
            else
              (let new_size = remain_size + get_size m4 back_of_new_back;
                   m5 = delete_block m4 back_of_new_back;
                   m6 = set_size m5 new_back new_size
               in case insert_block m6 new_back new_size of
                    None \<Rightarrow> None
                  | Some m7 \<Rightarrow> Some (p, m7))))"

section \<open>Initialisation\<close>

definition init_heads :: "memory \<Rightarrow> memory" where
  "init_heads m =
     fold (\<lambda>i m. set_next (set_prev m (heap_base_ptr + i) (heap_base_ptr + i))
                    (heap_base_ptr + i) (heap_base_ptr + i))
       (map (\<lambda>k. 8 * k) [0..<16]) m"

text \<open>The result is the C return value (0, or -1 when the provider fails) and the heap.\<close>

definition mm_init :: "heap \<Rightarrow> (int \<times> heap) option" where
  "mm_init s =
     (case mem_sbrk s (unat EXTEND_SIZE) of
        None \<Rightarrow> Some (- 1, s)
      | Some s1 \<Rightarrow>
          (let last = heap_base_ptr + unat EXTEND_SIZE;
               m1 = init_heads (mem s1);
               m2 = set_size m1 (heap_base_ptr + 136) (EXTEND_SIZE - 128 - 8);
               m3 = unset_allocated_flag m2 (heap_base_ptr + 136);
               m4 = set_forward_allocated_flag m3 (heap_base_ptr + 136);
               m5 = set_header m4 last 1
           in case insert_block m5 (heap_base_ptr + 136) (EXTEND_SIZE - 128 - 8) of
                None \<Rightarrow> None
              | Some m6 \<Rightarrow> Some (0, s1\<lparr>mem := m6, heap_last_ptr := last\<rparr>)))"

section \<open>Search\<close>

text \<open>
  The inner loop of \<^verbatim>\<open>find_fit_in_index_th_list\<close> walks one list from the successor of its
  head until it is back at the head. It returns \<open>Some (Some p)\<close> for the first block that
  is large enough, \<open>Some None\<close> when the walk ends at the head, and \<open>None\<close> when the
  walk never ends (a list that does not lead back to its head).
\<close>

partial_function (option) first_fit :: "memory \<Rightarrow> 32 word \<Rightarrow> nat \<Rightarrow> nat \<Rightarrow> nat option option" where
  "first_fit m aligned_size begin_and_end p =
     (if p = begin_and_end then Some None
      else if aligned_size \<le> get_size m p then Some (Some p)
      else first_fit m aligned_size begin_and_end (get_next m p))"

text \<open>
  The outer loop steps \<open>index\<close> down while \<^verbatim>\<open>--index > 11\<close>. From index 0 the decrement
  wraps to \<open>2^32 - 1\<close>, and the next round reads \<^verbatim>\<open>begins\<close> outside the table: \<open>None\<close>.
\<close>

function find_fit_in_index_th_list :: "memory \<Rightarrow> 32 word \<Rightarrow> 32 word \<Rightarrow> (nat \<times> memory) option" where
  "find_fit_in_index_th_list m aligned_size index =
     (case begins index of
        None \<Rightarrow> None
      | Some e \<Rightarrow>
          if e = 0 then None
          else
            (case first_fit m aligned_size e (get_next m e) of
               None \<Rightarrow> None
             | Some (Some p) \<Rightarrow>
                 (let block_size = get_size m p;
                      m1 = delete_block m p
                  in place m1 aligned_size p block_size)
             | Some None \<Rightarrow>
                 if index - 1 > 11 then find_fit_in_index_th_list m aligned_size (index - 1)
                 else Some (0, m)))"
  by pat_completeness auto


lemma index_step:
  fixes index :: "32 word"
  assumes "index \<le> 27"
  shows "(if 27 < index - 1 then 0 else unat (index - 1) + 1) < unat index + 1"
proof (cases "index = 0")
  case True
  then show ?thesis by simp
next
  case False
  then have "unat (index - 1) = unat index - 1"
    by (simp add: unat_minus_one)
  moreover from False have "0 < unat index"
    by (simp add: unat_gt_0)
  ultimately show ?thesis by simp
qed

termination find_fit_in_index_th_list
proof (relation "measure (\<lambda>(m, a, index). if 27 < index then 0 else unat index + 1)", goal_cases)
  case 1
  show ?case by simp
next
  case (2 m aligned_size index e x)
  from 2(1,2) have "index \<le> 27"
    by (auto simp: begins_def word_le_nat_alt split: if_splits)
  with index_step [of index] show ?case
    by (simp add: not_less)
qed

declare find_fit_in_index_th_list.simps [simp del]

section \<open>Heap extension\<close>

text \<open>
  The result of \<^verbatim>\<open>extend_heap\<close> is the pointer it returns (0 for \<^verbatim>\<open>NULL\<close>) and the
  heap it leaves. In the second branch the free block at the end of the heap is taken
  out of its list before the provider is asked.
\<close>

definition extend_heap :: "heap \<Rightarrow> 32 word \<Rightarrow> (nat \<times> heap) option" where
  "extend_heap s aligned_size =
     (if is_forward_allocated (mem s) (heap_last_ptr s) then
        (let extend_size = (if aligned_size > EXTEND_SIZE then aligned_size else EXTEND_SIZE);
             old_heap_last_ptr = heap_last_ptr s
         in case mem_sbrk s (unat extend_size) of
              None \<Rightarrow> Some (0, s)
            | Some s1 \<Rightarrow>
                (let last = heap_last_ptr s1 + unat extend_size;
                     m1 = set_size (mem s1) old_heap_last_ptr extend_size;
                     m2 = unset_allocated_flag m1 old_heap_last_ptr;
                     m3 = set_header m2 last 1
                 in case place m3 aligned_size old_heap_last_ptr extend_size of
                      None \<Rightarrow> None
                    | Some (p, m4) \<Rightarrow> Some (p, s1\<lparr>mem := m4, heap_last_ptr := last\<rparr>)))
      else
        (let forward = get_forward (mem s) (heap_last_ptr s);
             m1 = delete_block (mem s) forward;
             forward_size = get_size m1 forward;
             extend_size0 = aligned_size - forward_size;
             extend_size = (if extend_size0 > EXTEND_SIZE then extend_size0 else EXTEND_SIZE)
         in case mem_sbrk (s\<lparr>mem := m1\<rparr>) (unat extend_size) of
              None \<Rightarrow> Some (0, s\<lparr>mem := m1\<rparr>)
            | Some s1 \<Rightarrow>
                (let last = heap_last_ptr s1 + unat extend_size;
                     m2 = set_size (mem s1) forward (forward_size + extend_size);
                     m3 = set_header m2 last 1
                 in case place m3 aligned_size forward (extend_size + forward_size) of
                      None \<Rightarrow> None
                    | Some (p, m4) \<Rightarrow> Some (p, s1\<lparr>mem := m4, heap_last_ptr := last\<rparr>))))"

section \<open>The public operations\<close>

definition mm_malloc :: "heap \<Rightarrow> 64 word \<Rightarrow> (nat \<times> heap) option" where
  "mm_malloc s sz =
     (if sz = 0 then Some (0, s)
      else
        (let aligned_size = align_size sz;
             index = get_index aligned_size
         in case find_fit_in_index_th_list (mem s) aligned_size index of
              None \<Rightarrow> None
            | Some (p, m1) \<Rightarrow>
                if p \<noteq> 0 then Some (p, s\<lparr>mem := m1\<rparr>)
                else extend_heap (s\<lparr>mem := m1\<rparr>) aligned_size))"

definition mm_free :: "heap \<Rightarrow> nat \<Rightarrow> heap option" where
  "mm_free s p =
     (if p \<noteq> 0 then
        (let m = mem s;
             back = get_back m p;
             forward_allocated = is_forward_allocated m p;
             back_allocated = is_allocated m back
         in if forward_allocated \<and> back_allocated then
              (let sz = get_size m p;
                   m1 = set_size m p sz;
                   m2 = unset_allocated_flag m1 p;
                   m3 = unset_forward_allocated_flag m2 back
               in map_option (\<lambda>m'. s\<lparr>mem := m'\<rparr>) (insert_block m3 p sz))
            else if \<not> forward_allocated \<and> back_allocated then
              (let forward = get_forward m p;
                   m1 = delete_block m forward;
                   sz = get_size m1 forward + get_size m1 p;
                   m2 = set_size m1 forward sz;
                   m3 = unset_forward_allocated_flag m2 back
               in map_option (\<lambda>m'. s\<lparr>mem := m'\<rparr>) (insert_block m3 forward sz))
            else if forward_allocated \<and> \<not> back_allocated then
              (let m1 = delete_block m back;
                   sz = get_size m1 p + get_size m1 back;
                   m2 = set_size m1 p sz;
                   m3 = unset_allocated_flag m2 p
               in map_option (\<lambda>m'. s\<lparr>mem := m'\<rparr>) (insert_block m3 p sz))
            else
              (let forward = get_forward m p;
                   m1 = delete_block m forward;
                   m2 = delete_block m1 back;
                   sz = get_size m2 forward + get_size m2 p + get_size m2 back;
                   m3 = set_size m2 forward sz
               in map_option (\<lambda>m'. s\<lparr>mem := m'\<rparr>) (insert_block m3 forward sz)))
      else Some s)"

text \<open>
  \<^verbatim>\<open>memcpy\<close> and \<^verbatim>\<open>memset\<close> work on bytes. A range that leaves the memory the provider
  has handed out is an access outside the simulated heap: \<open>None\<close>. \<^verbatim>\<open>mm_realloc\<close> copies a
  multiple of 8 bytes between 8-aligned addresses, that is whole words.
\<close>

definition in_heap :: "heap \<Rightarrow> nat \<Rightarrow> nat \<Rightarrow> bool" where
  "in_heap s p n \<longleftrightarrow> heap_base_ptr \<le> p \<and> p + n \<le> heap_base_ptr + mem_brk s"

definition memcpy :: "heap \<Rightarrow> nat \<Rightarrow> nat \<Rightarrow> nat \<Rightarrow> heap option" where
  "memcpy s dst src n =
     (if in_heap s dst n \<and> in_heap s src n then
        Some (s\<lparr>mem := (\<lambda>a. if dst \<le> a \<and> a < dst + n then mem s (src + (a - dst)) else mem s a)\<rparr>)
      else None)"

text \<open>The byte at address \<open>a\<close>, and the bits of the word at \<open>w\<close> whose bytes lie in
  the range of \<open>n\<close> bytes from \<open>p\<close>.\<close>

definition byte_at :: "memory \<Rightarrow> nat \<Rightarrow> 8 word" where
  "byte_at m a = ucast (drop_bit (8 * (a mod 4)) (m (a - a mod 4)))"

definition range_mask :: "nat \<Rightarrow> nat \<Rightarrow> nat \<Rightarrow> 32 word" where
  "range_mask p n w =
     (if p \<le> w \<and> w < p + n then 0xFF else 0) OR
     (if p \<le> w + 1 \<and> w + 1 < p + n then 0xFF00 else 0) OR
     (if p \<le> w + 2 \<and> w + 2 < p + n then 0xFF0000 else 0) OR
     (if p \<le> w + 3 \<and> w + 3 < p + n then 0xFF000000 else 0)"

definition memset_zero :: "heap \<Rightarrow> nat \<Rightarrow> nat \<Rightarrow> heap option" where
  "memset_zero s p n =
     (if in_heap s p n then
        Some (s\<lparr>mem := (\<lambda>w. mem s w AND NOT (range_mask p n w))\<rparr>)
      else None)"

definition mm_realloc :: "heap \<Rightarrow> nat \<Rightarrow> 64 word \<Rightarrow> (nat \<times> heap) option" where
  "mm_realloc s old_ptr sz =
     (if old_ptr = 0 then mm_malloc s sz
      else if sz = 0 then map_option (\<lambda>s'. (0, s')) (mm_free s old_ptr)
      else
        (let m = mem s;
             old_block_size = get_size m old_ptr;
             new_block_size = align_size sz
         in if new_block_size \<le> old_block_size then
              map_option (\<lambda>(p, m'). (p, s\<lparr>mem := m'\<rparr>))
                (shrink m new_block_size old_ptr old_block_size)
            else
              (let extend_size = new_block_size - old_block_size;
                   back = get_back m old_ptr;
                   back_size = get_size m back
               in if \<not> is_allocated m back \<and> extend_size \<le> back_size then
                    (let new_back_size = back_size - extend_size in
                     if 16 \<le> new_back_size then
                       (let m1 = delete_block m back;
                            new_back = back + unat extend_size;
                            m2 = set_size m1 new_back new_back_size;
                            m3 = unset_allocated_flag m2 new_back;
                            m4 = set_forward_allocated_flag m3 new_back
                        in case insert_block m4 new_back new_back_size of
                             None \<Rightarrow> None
                           | Some m5 \<Rightarrow>
                               Some (old_ptr,
                                 s\<lparr>mem := set_size_only_header m5 old_ptr new_block_size\<rparr>))
                     else
                       (let m1 = delete_block m back;
                            m2 = set_size_only_header m1 old_ptr (old_block_size + back_size);
                            m3 = set_forward_allocated_flag m2 (get_back m2 old_ptr)
                        in Some (old_ptr, s\<lparr>mem := m3\<rparr>)))
                  else if back = heap_last_ptr s then
                    (case mem_sbrk s (unat extend_size) of
                       None \<Rightarrow> Some (0, s)
                     | Some s1 \<Rightarrow>
                         (let last = heap_last_ptr s1 + unat extend_size;
                              m1 = set_size_only_header (mem s1) old_ptr new_block_size;
                              m2 = set_header m1 last 3
                          in Some (old_ptr, s1\<lparr>mem := m2, heap_last_ptr := last\<rparr>)))
                  else
                    (case mm_malloc s sz of
                       None \<Rightarrow> None
                     | Some (newptr, s1) \<Rightarrow>
                         (case (if newptr \<noteq> 0
                                then memcpy s1 newptr old_ptr (unat (get_size (mem s1) old_ptr))
                                else Some s1) of
                            None \<Rightarrow> None
                          | Some s2 \<Rightarrow> map_option (\<lambda>s'. (newptr, s')) (mm_free s2 old_ptr))))))"

text \<open>The product \<^verbatim>\<open>nmemb * size\<close> is a \<^verbatim>\<open>size_t\<close>: it wraps at 64 bits.\<close>

definition mm_calloc :: "heap \<Rightarrow> 64 word \<Rightarrow> 64 word \<Rightarrow> (nat \<times> heap) option" where
  "mm_calloc s nmemb sz =
     (case mm_malloc s (nmemb * sz) of
        None \<Rightarrow> None
      | Some (p, s1) \<Rightarrow>
          if p \<noteq> 0 then map_option (\<lambda>s'. (p, s')) (memset_zero s1 p (unat (nmemb * sz)))
          else Some (p, s1))"


section \<open>Runs of the allocator\<close>

text \<open>
  A fresh provider has handed out nothing yet: \<open>m0\<close> is whatever its memory holds and
  \<open>cap\<close> its capacity. \<open>start\<close> is the heap after a successful \<^verbatim>\<open>mm_init\<close>. A run
  performs a list of calls, as the driver of the lab does from a trace file, and collects
  the pointers the calls return (0 for a call that returns nothing or \<^verbatim>\<open>NULL\<close>).
\<close>

definition fresh :: "memory \<Rightarrow> nat \<Rightarrow> heap" where
  "fresh m0 cap = \<lparr>mem = m0, heap_last_ptr = heap_base_ptr, mem_brk = 0, mem_max = cap\<rparr>"

definition start :: "memory \<Rightarrow> nat \<Rightarrow> heap option" where
  "start m0 cap =
     (case mm_init (fresh m0 cap) of
        None \<Rightarrow> None
      | Some (r, s) \<Rightarrow> if r = 0 then Some s else None)"

datatype request =
    Malloc "64 word"
  | Free nat
  | Realloc nat "64 word"
  | Calloc "64 word" "64 word"

fun call :: "heap \<Rightarrow> request \<Rightarrow> (nat \<times> heap) option" where
  "call s (Malloc n) = mm_malloc s n"
| "call s (Free p) = map_option (\<lambda>s'. (0, s')) (mm_free s p)"
| "call s (Realloc p n) = mm_realloc s p n"
| "call s (Calloc k n) = mm_calloc s k n"

text \<open>
  The walk of \<^verbatim>\<open>mm_checkheap\<close> over the blocks, from offset 136 to the end of the heap:
  the offset from \<open>heap_base_ptr\<close>, the size and the allocated flag of each block. The
  walk stops after \<open>n\<close> blocks (\<open>None\<close> when it has not reached the end by then).
\<close>

type_synonym block_list = "(nat \<times> 32 word \<times> bool) list"

fun blocks_from :: "nat \<Rightarrow> memory \<Rightarrow> nat \<Rightarrow> nat \<Rightarrow> block_list option" where
  "blocks_from n m p hi =
     (if p < hi then
        (if n = 0 then None
         else map_option (\<lambda>bs. (p - heap_base_ptr, get_size m p, is_allocated m p) # bs)
                (blocks_from (n - 1) m (get_back m p) hi))
      else Some [])"

declare blocks_from.simps [simp del]

definition heap_blocks :: "heap \<Rightarrow> block_list option" where
  "heap_blocks s = blocks_from 16 (mem s) (heap_base_ptr + 136) (heap_last_ptr s)"

text \<open>A run records, for each call, the pointer returned and the blocks of the heap after
  the call; it also gives the heap at the end.\<close>

fun run :: "heap \<Rightarrow> request list \<Rightarrow> ((nat \<times> block_list option) list \<times> heap) option" where
  "run s [] = Some ([], s)"
| "run s (r # rs) =
     (case call s r of
        None \<Rightarrow> None
      | Some (p, s1) \<Rightarrow>
          (case run s1 rs of
             None \<Rightarrow> None
           | Some (ps, s2) \<Rightarrow> Some ((p, heap_blocks s1) # ps, s2)))"

definition run_fresh ::
  "memory \<Rightarrow> nat \<Rightarrow> request list \<Rightarrow> ((nat \<times> block_list option) list \<times> heap) option" where
  "run_fresh m0 cap rs = (case start m0 cap of None \<Rightarrow> None | Some s \<Rightarrow> run s rs)"

section \<open>Notions used in the statements\<close>

text \<open>The alignment as the specification words it, on unbounded integers:
  \<open>align(s) = max(16, (s + 4 + 7) & ~7)\<close>.\<close>

definition spec_align :: "int \<Rightarrow> int" where
  "spec_align s = max 16 ((s + 4 + 7) AND NOT 7)"

text \<open>
  The check of \<^verbatim>\<open>mm_checkheap\<close> for two free blocks in a row, at the block \<open>p\<close>; and
  the heap that consists of one free block, from offset 136 to the end.
\<close>

definition both_free :: "memory \<Rightarrow> nat \<Rightarrow> bool" where
  "both_free m p \<longleftrightarrow> \<not> is_allocated m p \<and> \<not> is_allocated m (get_back m p)"

definition one_free_block :: "heap \<Rightarrow> bool" where
  "one_free_block s \<longleftrightarrow>
     \<not> is_allocated (mem s) (heap_base_ptr + 136) \<and>
     get_back (mem s) (heap_base_ptr + 136) = heap_last_ptr s"

text \<open>The heap with two allocated blocks of 104 bytes at offsets 136 and 240, on a provider
  of 4096 bytes; and that heap after a request of 5000 bytes has failed.\<close>

definition two_blocks :: heap where
  "two_blocks = snd (the (run_fresh (\<lambda>_. 0) 4096 [Malloc 100, Malloc 100]))"

definition two_blocks_failed :: heap where
  "two_blocks_failed = snd (the (mm_malloc two_blocks 5000))"

text \<open>\<open>zeroed s p n\<close>: the \<open>n\<close> bytes from \<open>p\<close> lie in the heap and are all zero.\<close>

definition zeroed :: "heap \<Rightarrow> nat \<Rightarrow> nat \<Rightarrow> bool" where
  "zeroed s p n \<longleftrightarrow> in_heap s p n \<and> (\<forall>i<n. byte_at (mem s) (p + i) = 0)"

text \<open>The fresh heap of a provider whose 4096 bytes of memory hold only one-bits, and that
  heap after \<^verbatim>\<open>mm_calloc(10, 10)\<close>.\<close>

definition ones_heap :: "heap" where
  "ones_heap = snd (the (run_fresh (\<lambda>_. - 1) 4096 []))"

definition ones_heap_calloc :: "heap" where
  "ones_heap_calloc = snd (the (mm_calloc ones_heap 10 10))"

text \<open>The class whose list \<^verbatim>\<open>insert\<close> chooses for a size: the number of leading zero bits,
  and 12 when these are fewer.\<close>

definition size_class :: "32 word \<Rightarrow> nat" where
  "size_class sz = (if get_index sz \<le> 12 then 12 else unat (get_index sz))"


section \<open>Evaluating the model\<close>

text \<open>
  The simplifier runs the model on concrete heaps with these equations. A \<open>let\<close> is
  unfolded only once its bound value is evaluated (\<open>let_weak_cong\<close>), and no case
  distinction is made on a condition (\<open>split del: if_split\<close>).
\<close>

lemmas block_defs =
  read_word_def write_word_def get_header_def set_header_def set_allocated_flag_def
  unset_allocated_flag_def set_forward_allocated_flag_def unset_forward_allocated_flag_def
  set_prev_def set_next_def set_size_def set_size_only_header_def get_size_def get_prev_def
  get_next_def get_forward_def get_back_def is_allocated_def is_forward_allocated_def
  delete_block_def

lemmas run_defs =
  block_defs mm_init_def mem_sbrk_def EXTEND_SIZE_def init_heads_def insert_block_def Let_def
  get_index_def bit_count.simps begins_def heap_base_ptr_def upt_rec mm_malloc_def
  align_size_def find_fit_in_index_th_list.simps first_fit.simps place_def extend_heap_def
  mm_free_def shrink_def mm_realloc_def fresh_def start_def run_fresh_def heap_blocks_def
  blocks_from.simps

text \<open>Flag bits read from memory that was never written stay symbolic; these equations
  bring a header built from them into the form \<open>number OR (garbage AND number)\<close>.\<close>

lemmas flag_norm = bit.conj_disj_distrib2 and.assoc or.assoc

section \<open>Aligned request sizes\<close>

lemma and_not_mask_diff:
  fixes x :: "'a::ring_bit_operations"
  shows "x AND NOT (mask n) = x - take_bit n x"
proof -
  have "NOT x AND take_bit n x = 0"
    by (simp add: bit_eq_iff bit_simps)
  then have "x - take_bit n x = x AND NOT (take_bit n x)"
    by (rule disjunctive_diff_eq_and_not)
  also have "\<dots> = x AND NOT (mask n)"
    by (auto simp: bit_eq_iff bit_simps)
  finally show ?thesis by simp
qed

lemma int_and_not7: "(x::int) AND NOT 7 = x - x mod 8"
  using and_not_mask_diff [of x 3] by (simp add: take_bit_eq_mod mask_numeral)

lemma word_and_not7: "uint ((w::32 word) AND NOT 7) = uint w - uint w mod 8"
proof -
  have "w AND NOT 7 = w - take_bit 3 w"
    using and_not_mask_diff [of w 3] by (simp add: mask_numeral)
  moreover have m: "uint (take_bit 3 w) = uint w mod 8"
    by (simp only: unsigned_take_bit_eq) (simp add: take_bit_eq_mod)
  moreover have "uint (take_bit 3 w) \<le> uint w"
    by (simp only: m) (simp add: zmod_le_nonneg_dividend)
  ultimately show ?thesis
    by (simp only: uint_sub_lem [THEN iffD1])
qed

lemma ucast_small:
  "uint (sz::64 word) \<le> 4294967284 \<Longrightarrow> uint (ucast sz + 11 :: 32 word) = uint sz + 11"
  by (simp add: uint_word_ariths unsigned_ucast_eq take_bit_eq_mod)

lemma align_size_small:
  assumes "sz \<noteq> 448" "uint sz \<le> 4294967284"
  shows "uint (align_size sz) = spec_align (uint sz)"
proof -
  let ?t = "(ucast sz + 11 :: 32 word) AND NOT 7"
  have t: "uint ?t = (uint sz + 11) - (uint sz + 11) mod 8"
    by (simp only: word_and_not7 ucast_small [OF assms(2)])
  have "uint (align_size sz) = (if uint ?t < 16 then 16 else uint ?t)"
    using assms(1) by (simp add: align_size_def Let_def word_less_def)
  also have "\<dots> = max 16 (uint ?t)"
    by (simp add: max_def)
  finally have "uint (align_size sz) = max 16 ((uint sz + 11) - (uint sz + 11) mod 8)"
    by (simp only: t)
  moreover have "spec_align (uint sz) = max 16 ((uint sz + 11) - (uint sz + 11) mod 8)"
    by (simp only: spec_align_def int_and_not7) (simp add: add.assoc)
  ultimately show ?thesis
    by simp
qed

lemma align_size_mod:
  assumes "sz \<noteq> 448" "sz' \<noteq> 448" "unat sz mod 2 ^ 32 = unat sz' mod 2 ^ 32"
  shows "align_size sz = align_size sz'"
proof -
  have "(ucast sz :: 32 word) = ucast sz'"
    using assms(3)
    by (simp add: word_eq_iff_unsigned [where ?'a = nat] unsigned_ucast_eq take_bit_eq_mod)
  with assms(1,2) show ?thesis
    by (simp add: align_size_def)
qed




text \<open>
  Claim C9: \<^verbatim>\<open>mm_malloc\<close> aligns the low 32 bits of its \<^verbatim>\<open>size_t\<close> argument. Two requests
  other than 448 that agree modulo \<open>2^32\<close> get the same aligned size; the special case is
  keyed on the whole value (\<open>2^32 + 448\<close> is aligned to 456, not 520); and on a heap fresh
  from \<^verbatim>\<open>mm_init\<close>, whatever the provider's memory held and whenever it can hand out the
  first 4096 bytes, \<^verbatim>\<open>mm_malloc(2^32)\<close> returns the non-null pointer at offset 136 to an
  allocated block of 16 bytes, followed by the free rest of 3944 bytes.
\<close>

theorem malloc_truncates_size:
  "(\<forall>sz sz'. sz \<noteq> 448 \<and> sz' \<noteq> 448 \<and> unat sz mod 2 ^ 32 = unat sz' mod 2 ^ 32 \<longrightarrow>
      align_size sz = align_size sz') \<and>
   align_size 448 = 520 \<and> align_size (4294967296 + 448) = 456 \<and>
   (\<forall>m0 cap. 4096 \<le> cap \<longrightarrow>
      map_option fst (run_fresh m0 cap [Malloc 4294967296]) =
      Some [(heap_base_ptr + 136, Some [(136, 16, True), (152, 3944, False)])])"
proof (intro conjI allI impI)
  fix sz sz' :: "64 word"
  assume "sz \<noteq> 448 \<and> sz' \<noteq> 448 \<and> unat sz mod 2 ^ 32 = unat sz' mod 2 ^ 32"
  then show "align_size sz = align_size sz'"
    by (simp add: align_size_mod)
next
  show "align_size 448 = 520"
    by (simp add: align_size_def)
next
  show "align_size (4294967296 + 448) = 456"
    by (simp add: align_size_def)
next
  fix m0 :: memory and cap :: nat
  assume "4096 \<le> cap"
  then show "map_option fst (run_fresh m0 cap [Malloc 4294967296]) =
      Some [(heap_base_ptr + 136, Some [(136, 16, True), (152, 3944, False)])]"
    by (simp add: run_defs flag_norm split del: if_split cong: let_weak_cong)
qed

theorem malloc_truncates_size_witness:
  "align_size (4294967296 + 100) = align_size 100 \<and> align_size 100 = 104 \<and>
   map_option fst (run_fresh (\<lambda>_. 0) 4096 [Malloc 4294967296]) =
   Some [(heap_base_ptr + 136, Some [(136, 16, True), (152, 3944, False)])]"
proof -
  note t = malloc_truncates_size
  have "align_size (4294967296 + 100) = align_size 100"
    by (rule t [THEN conjunct1, rule_format]) simp
  moreover have "align_size 100 = 104"
    by (simp add: align_size_def)
  moreover have "map_option fst (run_fresh (\<lambda>_. 0) 4096 [Malloc 4294967296]) =
   Some [(heap_base_ptr + 136, Some [(136, 16, True), (152, 3944, False)])]"
    by (rule t [THEN conjunct2, THEN conjunct2, THEN conjunct2, rule_format]) simp
  ultimately show ?thesis
    by simp
qed


section \<open>Two allocations on a fresh heap\<close>

text \<open>
  Claim C5 as stated fails: on the fresh heap of an all-zero provider of 4096 bytes,
  \<^verbatim>\<open>a = mm_malloc(16)\<close> is at offset 136 and \<^verbatim>\<open>b = mm_malloc(16)\<close> at offset 160, so
  \<open>b = a + 24\<close> and not \<open>a + 16\<close>: a request of 16 bytes needs 4 more for the header
  and is aligned to a block of 24.
\<close>

theorem malloc_16_twice_counterexample:
  "map_option (map fst \<circ> fst) (run_fresh (\<lambda>_. 0) 4096 [Malloc 16, Malloc 16]) =
     Some [heap_base_ptr + 136, heap_base_ptr + 160] \<and>
   heap_base_ptr + 160 \<noteq> (heap_base_ptr + 136) + 16 \<and> align_size 16 = 24"
  by (simp add: run_defs split del: if_split cong: let_weak_cong)

text \<open>
  Claim C5, amended: on every fresh heap (whatever the provider's memory held, whenever it
  can hand out the first 4096 bytes) \<^verbatim>\<open>a = mm_malloc(16)\<close> and \<^verbatim>\<open>b = mm_malloc(16)\<close> are
  non-null and \<open>b = a + 24\<close>: two allocated blocks of 24 bytes at offsets 136 and 160,
  followed by the free rest.
\<close>

theorem malloc_16_twice:
  "4096 \<le> cap \<Longrightarrow>
   map_option fst (run_fresh m0 cap [Malloc 16, Malloc 16]) =
     Some [(heap_base_ptr + 136, Some [(136, 24, True), (160, 3936, False)]),
           (heap_base_ptr + 136 + 24,
            Some [(136, 24, True), (160, 24, True), (184, 3912, False)])]"
  by (simp add: run_defs flag_norm split del: if_split cong: let_weak_cong)

theorem malloc_16_twice_witness:
  "(4096::nat) \<le> 8192 \<and>
   map_option fst (run_fresh (\<lambda>a. 7) 8192 [Malloc 16, Malloc 16]) =
     Some [(heap_base_ptr + 136, Some [(136, 24, True), (160, 3936, False)]),
           (heap_base_ptr + 136 + 24,
            Some [(136, 24, True), (160, 24, True), (184, 3912, False)])]"
  using malloc_16_twice [of 8192 "\<lambda>a. 7"] by simp

section \<open>A failed heap extension\<close>

text \<open>
  When the last block of the heap is allocated, \<^verbatim>\<open>extend_heap\<close> asks the provider first
  and returns \<^verbatim>\<open>NULL\<close> with the heap untouched when the provider fails.
\<close>

lemma extend_heap_fails_tail_allocated:
  assumes "is_forward_allocated (mem s) (heap_last_ptr s)"
    and "mem_sbrk s (unat (if aligned_size > EXTEND_SIZE then aligned_size else EXTEND_SIZE)) = None"
  shows "extend_heap s aligned_size = Some (0, s)"
  using assms by (simp add: extend_heap_def Let_def)

text \<open>
  When the last block is free, \<^verbatim>\<open>extend_heap\<close> asks for at least 4096 bytes; if the
  provider cannot hand them out, the result is \<^verbatim>\<open>NULL\<close> and the heap in which the last
  block has been taken out of its list.
\<close>

lemma mem_sbrk_fails:
  assumes "mem_max s < mem_brk s + 4096"
  shows "mem_sbrk s (unat (if EXTEND_SIZE < x then x else EXTEND_SIZE)) = None"
proof -
  have "4096 \<le> unat (if EXTEND_SIZE < x then x else EXTEND_SIZE)"
    by (simp add: EXTEND_SIZE_def word_less_nat_alt)
  with assms show ?thesis
    by (simp add: mem_sbrk_def)
qed

lemma extend_heap_fails_tail_free:
  assumes "\<not> is_forward_allocated (mem s) (heap_last_ptr s)"
    and "mem_max s < mem_brk s + 4096"
  shows "extend_heap s aligned_size =
    Some (0, s\<lparr>mem := delete_block (mem s) (get_forward (mem s) (heap_last_ptr s))\<rparr>)"
proof -
  let ?m1 = "delete_block (mem s) (get_forward (mem s) (heap_last_ptr s))"
  from assms(2) have "mem_max (s\<lparr>mem := ?m1\<rparr>) < mem_brk (s\<lparr>mem := ?m1\<rparr>) + 4096"
    by simp
  then have "mem_sbrk (s\<lparr>mem := ?m1\<rparr>)
      (unat (if EXTEND_SIZE < x then x else EXTEND_SIZE)) = None" for x
    by (rule mem_sbrk_fails)
  with assms(1) show ?thesis
    by (simp add: extend_heap_def Let_def)
qed

text \<open>
  Claim C3 fails on the code when the last block is free. On the fresh heap of a provider
  of 4096 bytes the list of class 20, whose head is at offset 56, holds the free block at
  offset 136. \<^verbatim>\<open>mm_malloc(5000)\<close> finds no fit, \<^verbatim>\<open>extend_heap\<close> takes the free block out
  of its list, the provider fails, and \<^verbatim>\<open>NULL\<close> is returned with the head at offset 56
  linked to itself: the block at 136 is still free and 3960 bytes large, but in no list,
  and the following \<^verbatim>\<open>mm_malloc(16)\<close> fails too.
\<close>

theorem extend_heap_failure_unlinks_free_tail:
  "map_option (\<lambda>(ps, s). (ps, get_next (mem s) (heap_base_ptr + 56)))
     (run_fresh (\<lambda>_. 0) 4096 []) =
     Some ([], heap_base_ptr + 136) \<and>
   map_option (\<lambda>(ps, s). (ps, get_next (mem s) (heap_base_ptr + 56)))
     (run_fresh (\<lambda>_. 0) 4096 [Malloc 5000, Malloc 16]) =
     Some ([(0, Some [(136, 3960, False)]), (0, Some [(136, 3960, False)])],
           heap_base_ptr + 56)"
  by (simp add: run_defs split del: if_split cong: let_weak_cong)


section \<open>Runs after a failed extension\<close>

text \<open>
  Claim C2 fails on the code, through the defect of claim C3. The provider has 4096 bytes.
  The first three calls leave the free blocks at 2168 (the last block) and at 136 in the
  list of class 21, in this order. \<^verbatim>\<open>mm_malloc(2000)\<close> fails in \<^verbatim>\<open>extend_heap\<close>, which has
  unlinked 2168 by then; its own links still name 136 as its successor.
  \<^verbatim>\<open>mm_free(1160)\<close> merges all three blocks: it unlinks 136, then unlinks 2168 a second
  time, which puts 136 back behind the head of class 21 (at offset 48), and inserts the
  merged block 136 into class 20. \<^verbatim>\<open>mm_malloc(1020)\<close> finds 136 through class 21 and
  allocates it, but the head of class 21 still points to it, so \<^verbatim>\<open>mm_malloc(500)\<close> finds
  the allocated block 136 again, returns the same pointer a second time and splits it:
  the blocks at 640 and at 1160 are both free and adjacent.
\<close>

theorem adjacent_free_blocks_after_failed_extension:
  "map_option (\<lambda>(ps, s). (ps, both_free (mem s) (heap_base_ptr + 640),
                  get_back (mem s) (heap_base_ptr + 640), heap_last_ptr s))
     (run_fresh (\<lambda>_. 0) 4096
        [Malloc 1020, Malloc 1000, Free (heap_base_ptr + 136), Malloc 2000,
         Free (heap_base_ptr + 1160), Malloc 1020, Malloc 500]) =
   Some ([(heap_base_ptr + 136, Some [(136, 1024, True), (1160, 2936, False)]),
          (heap_base_ptr + 1160,
           Some [(136, 1024, True), (1160, 1008, True), (2168, 1928, False)]),
          (0, Some [(136, 1024, False), (1160, 1008, True), (2168, 1928, False)]),
          (0, Some [(136, 1024, False), (1160, 1008, True), (2168, 1928, False)]),
          (0, Some [(136, 3960, False)]),
          (heap_base_ptr + 136, Some [(136, 1024, True), (1160, 2936, False)]),
          (heap_base_ptr + 136,
           Some [(136, 504, True), (640, 520, False), (1160, 2936, False)])],
         True, heap_base_ptr + 1160, heap_base_ptr + 4096)"
  by (simp add: run_defs both_free_def split del: if_split cong: let_weak_cong)

text \<open>
  Claim C1 fails on the code, through the same defect. The provider has 4096 bytes; every
  pointer a call returns is freed exactly once, and no pointer is returned while it is
  still held. \<^verbatim>\<open>mm_malloc(1000)\<close> (the fifth call) fails with the last block 3152
  unlinked, its links still naming the free block 1144 as its successor. \<^verbatim>\<open>mm_free(136)\<close>
  merges 136 and 1144. The failing \<^verbatim>\<open>mm_malloc(3000)\<close> unlinks 3152 again and so puts
  1144, now the inside of the free block 136, behind the head of class 22.
  \<^verbatim>\<open>mm_malloc(20)\<close> returns 1144. Freeing it writes a footer of 1000 over the footer of
  the block 136, and \<^verbatim>\<open>mm_free(2144)\<close> takes 1144 for the block in front of 2144. At the
  end nothing is held, and the heap is not one free block: it has a free block of 2008
  bytes at 136, the block 2144 still marked allocated, and a free block at 3152.
\<close>

theorem not_one_free_block_after_failed_extension:
  "map_option (\<lambda>(ps, s). (ps, one_free_block s))
     (run_fresh (\<lambda>_. 0) 4096
        [Malloc 2000, Malloc 1000, Free (heap_base_ptr + 136), Malloc 1000, Malloc 1000,
         Free (heap_base_ptr + 136), Malloc 3000, Malloc 20, Free (heap_base_ptr + 1144),
         Free (heap_base_ptr + 2144)]) =
   Some ([(heap_base_ptr + 136, Some [(136, 2008, True), (2144, 1952, False)]),
          (heap_base_ptr + 2144,
           Some [(136, 2008, True), (2144, 1008, True), (3152, 944, False)]),
          (0, Some [(136, 2008, False), (2144, 1008, True), (3152, 944, False)]),
          (heap_base_ptr + 136,
           Some [(136, 1008, True), (1144, 1000, False), (2144, 1008, True),
                 (3152, 944, False)]),
          (0, Some [(136, 1008, True), (1144, 1000, False), (2144, 1008, True),
                    (3152, 944, False)]),
          (0, Some [(136, 2008, False), (2144, 1008, True), (3152, 944, False)]),
          (0, Some [(136, 2008, False), (2144, 1008, True), (3152, 944, False)]),
          (heap_base_ptr + 1144,
           Some [(136, 2008, False), (2144, 1008, True), (3152, 944, False)]),
          (0, Some [(136, 2008, False), (2144, 1008, True), (3152, 944, False)]),
          (0, Some [(136, 2008, False), (2144, 1008, True), (3152, 944, False)])],
         False)"
  by (simp add: run_defs one_free_block_def split del: if_split cong: let_weak_cong)


section \<open>Reallocation that has to move the block\<close>

text \<open>
  Claim C10: when the block behind \<open>old_ptr\<close> is allocated and is not the end of the heap,
  a growing \<^verbatim>\<open>mm_realloc\<close> calls \<^verbatim>\<open>mm_malloc\<close>; if that returns \<^verbatim>\<open>NULL\<close> (here with the
  heap \<open>s1\<close>), \<^verbatim>\<open>mm_realloc\<close> still calls \<^verbatim>\<open>mm_free(old_ptr)\<close> and returns \<^verbatim>\<open>NULL\<close>: its
  result is the null pointer and the heap in which the old block has been freed.
\<close>

theorem realloc_move_failure_frees_old_block:
  assumes "old_ptr \<noteq> 0" and "sz \<noteq> 0"
    and "\<not> align_size sz \<le> get_size (mem s) old_ptr"
    and "is_allocated (mem s) (get_back (mem s) old_ptr)"
    and "get_back (mem s) old_ptr \<noteq> heap_last_ptr s"
    and "mm_malloc s sz = Some (0, s1)"
  shows "mm_realloc s old_ptr sz = map_option (\<lambda>s'. (0, s')) (mm_free s1 old_ptr)"
  using assms by (simp add: mm_realloc_def Let_def)

text \<open>The witness: on \<open>two_blocks\<close> the reallocation of the block at 136 to 5000 bytes
  returns \<^verbatim>\<open>NULL\<close>, and the block at 136, allocated before, is free afterwards.\<close>

theorem realloc_move_failure_witness:
  "heap_base_ptr + 136 \<noteq> 0 \<and> (5000 :: 64 word) \<noteq> 0 \<and>
   \<not> align_size 5000 \<le> get_size (mem two_blocks) (heap_base_ptr + 136) \<and>
   is_allocated (mem two_blocks) (get_back (mem two_blocks) (heap_base_ptr + 136)) \<and>
   get_back (mem two_blocks) (heap_base_ptr + 136) \<noteq> heap_last_ptr two_blocks \<and>
   mm_malloc two_blocks 5000 = Some (0, two_blocks_failed) \<and>
   mm_realloc two_blocks (heap_base_ptr + 136) 5000 =
     map_option (\<lambda>s'. (0, s')) (mm_free two_blocks_failed (heap_base_ptr + 136)) \<and>
   heap_blocks two_blocks = Some [(136, 104, True), (240, 104, True), (344, 3752, False)] \<and>
   map_option (\<lambda>(p, s'). (p, heap_blocks s')) (mm_realloc two_blocks (heap_base_ptr + 136) 5000) =
     Some (0, Some [(136, 104, False), (240, 104, True), (344, 3752, False)])"
proof -
  have s: "two_blocks = \<lparr>mem =
        (\<lambda>_. 0)
        (34359738368 := 0, 34359738372 := 0, 34359738376 := 8,
           34359738380 := 8, 34359738384 := 16, 34359738388 := 16,
           34359738392 := 24, 34359738396 := 24, 34359738400 := 32,
           34359738404 := 32, 34359738408 := 40, 34359738412 := 40,
           34359738416 := 48, 34359738420 := 48, 34359738432 := 64,
           34359738436 := 64, 34359738440 := 72, 34359738444 := 72,
           34359738448 := 80, 34359738452 := 80, 34359738456 := 88,
           34359738460 := 88, 34359738464 := 96, 34359738468 := 96,
           34359738472 := 104, 34359738476 := 104, 34359738480 := 112,
           34359738484 := 112, 34359738488 := 120, 34359738492 := 120,
           34359742460 := 1, 34359738504 := 56, 34359738508 := 56,
           34359738600 := 104, 34359738500 := 107, 34359738608 := 56,
           34359738612 := 56, 34359738704 := 104, 34359738604 := 107,
           34359742456 := 3752, 34359738708 := 3754, 34359738424 := 344,
           34359738712 := 56, 34359738716 := 56, 34359738428 := 344),
        heap_last_ptr = 34359742464, mem_brk = 4096, mem_max = 4096\<rparr>"
    by (simp add: two_blocks_def run_defs split del: if_split cong: let_weak_cong)
  have h1: "heap_base_ptr + 136 \<noteq> 0" and h2: "(5000 :: 64 word) \<noteq> 0"
    by (simp_all add: heap_base_ptr_def)
  have h3: "\<not> align_size 5000 \<le> get_size (mem two_blocks) (heap_base_ptr + 136)"
    by (simp add: s run_defs split del: if_split cong: let_weak_cong)
  have h4: "is_allocated (mem two_blocks) (get_back (mem two_blocks) (heap_base_ptr + 136))"
    by (simp add: s run_defs split del: if_split cong: let_weak_cong)
  have h5: "get_back (mem two_blocks) (heap_base_ptr + 136) \<noteq> heap_last_ptr two_blocks"
    by (simp add: s run_defs split del: if_split cong: let_weak_cong)
  have h6: "mm_malloc two_blocks 5000 = Some (0, two_blocks_failed)"
    unfolding two_blocks_failed_def
    by (simp add: s run_defs split del: if_split cong: let_weak_cong)
  note r = realloc_move_failure_frees_old_block [OF h1 h2 h3 h4 h5 h6]
  have b: "heap_blocks two_blocks = Some [(136, 104, True), (240, 104, True), (344, 3752, False)]"
    by (simp add: s run_defs split del: if_split cong: let_weak_cong)
  have f: "map_option (\<lambda>(p, s'). (p, heap_blocks s')) (map_option (\<lambda>s'. (0, s')) (mm_free two_blocks_failed (heap_base_ptr + 136))) =
     Some (0, Some [(136, 104, False), (240, 104, True), (344, 3752, False)])"
    unfolding two_blocks_failed_def
    by (simp add: s run_defs split del: if_split cong: let_weak_cong)
  show ?thesis
    using h1 h2 h3 h4 h5 h6 r b f by simp
qed


section \<open>Zeroed allocation\<close>

lemmas calloc_defs = mm_calloc_def memset_zero_def in_heap_def range_mask_def

lemma bit_range_mask:
  assumes "p \<le> w + j" "w + j < p + n" "j < 4" "b < 8"
  shows "bit (range_mask p n w) (8 * j + b)"
proof -
  have j: "j = 0 \<or> j = 1 \<or> j = 2 \<or> j = 3" using assms(3) by arith
  have m0: "(0xFF :: 32 word) = mask 8" by (simp add: mask_numeral)
  have m1: "(0xFF00 :: 32 word) = push_bit 8 (mask 8)" by (simp add: mask_numeral)
  have m2: "(0xFF0000 :: 32 word) = push_bit 16 (mask 8)" by (simp add: mask_numeral)
  have m3: "(0xFF000000 :: 32 word) = push_bit 24 (mask 8)" by (simp add: mask_numeral)
  from j assms show ?thesis
    unfolding range_mask_def m0 m1 m2 m3
    by (auto simp add: bit_simps)
qed

lemma byte_at_memset:
  assumes "memset_zero s p n = Some s'" "i < n"
  shows "byte_at (mem s') (p + i) = 0"
proof -
  let ?a = "p + i"
  let ?j = "?a mod 4"
  let ?w = "?a - ?j"
  from assms(1) have m: "mem s' = (\<lambda>w. mem s w AND NOT (range_mask p n w))"
    by (auto simp: memset_zero_def split: if_splits)
  have wj: "?w + ?j = ?a" by simp
  have "bit (range_mask p n ?w) (8 * ?j + b)" if "b < 8" for b
    by (rule bit_range_mask) (use assms(2) that wj in simp_all)
  then show ?thesis
    unfolding byte_at_def m
    by (auto simp add: bit_eq_iff bit_simps)
qed

lemma memset_zero_zeroed:
  assumes "memset_zero s p n = Some s'"
  shows "zeroed s' p n"
proof -
  from assms have "in_heap s p n" and "mem_brk s' = mem_brk s"
    by (auto simp: memset_zero_def split: if_splits)
  then have "in_heap s' p n"
    by (simp add: in_heap_def)
  with byte_at_memset [OF assms] show ?thesis
    by (simp add: zeroed_def)
qed

text \<open>
  Claim C8 as stated fails when the product overflows \<^verbatim>\<open>size_t\<close>: for \<open>k = 2^62 + 1\<close>
  and \<open>n = 4\<close> the product \<^verbatim>\<open>nmemb * size\<close> is 4, \<^verbatim>\<open>mm_calloc\<close> returns the pointer at
  offset 136 to a block of 16 bytes, and the \<open>k \<times> n = 2^64 + 4\<close> bytes from there do not
  even lie in the heap of 4096 bytes.
\<close>

theorem calloc_overflow_counterexample:
  "map_option (\<lambda>(ps, s). (ps, mem_brk s,
       zeroed s (heap_base_ptr + 136) (unat (4611686018427387905 :: 64 word) * unat (4 :: 64 word))))
     (run_fresh (\<lambda>_. 0) 4096 [Calloc 4611686018427387905 4]) =
   Some ([(heap_base_ptr + 136, Some [(136, 16, True), (152, 3944, False)])], 4096, False)"
  by (simp add: run_defs calloc_defs zeroed_def split del: if_split cong: let_weak_cong)

text \<open>
  Claim C8, amended: when \<open>k \<times> n\<close> does not overflow \<^verbatim>\<open>size_t\<close>, a call
  \<^verbatim>\<open>mm_calloc(k, n)\<close> that returns has returned either \<^verbatim>\<open>NULL\<close> or a pointer to \<open>k \<times> n\<close>
  bytes in the heap that are all zero.
\<close>

theorem calloc_zeroes:
  assumes "unat nmemb * unat sz < 2 ^ 64"
    and "mm_calloc s nmemb sz = Some (p, s')"
  shows "p = 0 \<or> zeroed s' p (unat nmemb * unat sz)"
proof (cases "p = 0")
  case True
  then show ?thesis by simp
next
  case False
  have len: "unat (nmemb * sz) = unat nmemb * unat sz"
    using assms(1) by (simp add: unat_mult_lem [THEN iffD1])
  from assms(2) False obtain s1 where "memset_zero s1 p (unat (nmemb * sz)) = Some s'"
    by (auto simp: mm_calloc_def split: option.splits if_splits)
  then have "zeroed s' p (unat (nmemb * sz))"
    by (rule memset_zero_zeroed)
  then show ?thesis
    by (simp add: len)
qed

theorem calloc_zeroes_witness:
  "unat (10 :: 64 word) * unat (10 :: 64 word) < 2 ^ 64 \<and>
   mm_calloc ones_heap 10 10 = Some (heap_base_ptr + 136, ones_heap_calloc) \<and>
   zeroed ones_heap_calloc (heap_base_ptr + 136) 100 \<and>
   \<not> zeroed ones_heap (heap_base_ptr + 136) 100 \<and>
   byte_at (mem ones_heap) (heap_base_ptr + 235) = 255"
proof -
  have h1: "unat (10 :: 64 word) * unat (10 :: 64 word) < 2 ^ 64"
    by simp
  have h2: "mm_calloc ones_heap 10 10 = Some (heap_base_ptr + 136, ones_heap_calloc)"
    unfolding ones_heap_calloc_def ones_heap_def
    by (simp add: run_defs calloc_defs flag_norm split del: if_split cong: let_weak_cong)
  have b: "byte_at (mem ones_heap) (heap_base_ptr + 235) = 255"
    unfolding ones_heap_def
    by (simp add: run_defs byte_at_def mask_eq_exp_minus_1 split del: if_split cong: let_weak_cong)
  have n: "\<not> zeroed ones_heap (heap_base_ptr + 136) 100"
  proof
    assume "zeroed ones_heap (heap_base_ptr + 136) 100"
    then have "\<forall>i<100. byte_at (mem ones_heap) (heap_base_ptr + 136 + i) = 0"
      by (simp add: zeroed_def)
    then have "(99::nat) < 100 \<longrightarrow> byte_at (mem ones_heap) (heap_base_ptr + 136 + 99) = 0"
      by (rule spec)
    with b show False
      by (simp add: add.assoc)
  qed
  from calloc_zeroes [OF h1 h2] have "zeroed ones_heap_calloc (heap_base_ptr + 136) 100"
    by (simp add: heap_base_ptr_def)
  with h1 h2 b n show ?thesis
    by simp
qed


section \<open>Size classes of inserted blocks\<close>

lemma bit_count_upper: "n < 2 ^ bit_count n"
proof (induction n rule: bit_count.induct)
  case (1 n)
  show ?case
  proof (cases "n = 0")
    case True
    then show ?thesis by (simp add: bit_count.simps)
  next
    case False
    with 1 have "n div 2 < 2 ^ bit_count (n div 2)" by simp
    then have "n < 2 * 2 ^ bit_count (n div 2)" by arith
    with False show ?thesis by (simp add: bit_count.simps [of n])
  qed
qed

lemma bit_count_lower: "0 < n \<Longrightarrow> 2 ^ (bit_count n - 1) \<le> n"
proof (induction n rule: bit_count.induct)
  case (1 n)
  show ?case
  proof (cases "n div 2 = 0")
    case True
    with 1(2) have "n = 1" by arith
    then show ?thesis by (simp add: bit_count.simps)
  next
    case False
    with 1 have ih: "2 ^ (bit_count (n div 2) - 1) \<le> n div 2" by simp
    from False have "bit_count (n div 2) \<noteq> 0" by (simp add: bit_count.simps [of "n div 2"])
    then have "(2::nat) ^ bit_count (n div 2) = 2 * 2 ^ (bit_count (n div 2) - 1)"
      by (cases "bit_count (n div 2)") simp_all
    with ih have "(2::nat) ^ bit_count (n div 2) \<le> n" by arith
    with 1(2) show ?thesis by (simp add: bit_count.simps [of n])
  qed
qed

lemma bit_count_le: "n < 2 ^ k \<Longrightarrow> bit_count n \<le> k"
proof (rule ccontr)
  assume n: "n < 2 ^ k" and "\<not> bit_count n \<le> k"
  then have k: "k \<le> bit_count n - 1" by simp
  from n have "0 < n \<or> n = 0" by arith
  then show False
  proof
    assume "0 < n"
    then have "2 ^ (bit_count n - 1) \<le> n" by (rule bit_count_lower)
    moreover from k have "(2::nat) ^ k \<le> 2 ^ (bit_count n - 1)" by (rule power_increasing) simp
    ultimately show False using n by arith
  next
    assume "n = 0"
    with \<open>\<not> bit_count n \<le> k\<close> show False by (simp add: bit_count.simps)
  qed
qed

lemma bit_count_ge: "2 ^ k \<le> n \<Longrightarrow> k < bit_count n"
proof (rule ccontr)
  assume n: "2 ^ k \<le> n" and "\<not> k < bit_count n"
  then have "bit_count n \<le> k" by simp
  then have "(2::nat) ^ bit_count n \<le> 2 ^ k" by (rule power_increasing) simp
  with bit_count_upper [of n] n show False by arith
qed

lemma unat_get_index: "unat (get_index sz) = 32 - bit_count (unat sz)"
proof -
  have "32 - bit_count (unat sz) < 4294967296"
    by (rule le_less_trans [of _ 32]) simp_all
  then show ?thesis
    by (simp add: get_index_def unat_of_nat)
qed


lemma bit_count_unat: "bit_count (unat (sz :: 32 word)) \<le> 32"
  by (rule bit_count_le) (use unsigned_less [of sz, where ?'a = nat] in simp)

lemma size_class_eq:
  "size_class sz = (if 20 \<le> bit_count (unat sz) then 12 else 32 - bit_count (unat sz))"
  using bit_count_unat [of sz]
  by (auto simp: size_class_def word_le_nat_alt unat_get_index)

lemma size_class_range: "12 \<le> size_class sz \<and> (16 \<le> sz \<longrightarrow> size_class sz \<le> 27)"
proof -
  have "4 < bit_count (unat sz)" if "16 \<le> sz"
  proof -
    from that have "2 ^ 4 \<le> unat sz" by (simp add: word_le_nat_alt)
    then show ?thesis by (rule bit_count_ge)
  qed
  then show ?thesis
    by (auto simp: size_class_eq)
qed

lemma begins_size_class:
  assumes "16 \<le> sz"
  shows "begins (get_index sz) = Some (heap_base_ptr + 8 * (27 - size_class sz))"
proof -
  from assms size_class_range [of sz] have "size_class sz \<le> 27" by simp
  moreover have "unat (get_index sz) \<le> 32"
    by (simp add: unat_get_index)
  ultimately show ?thesis
    by (auto simp: begins_def size_class_def word_le_nat_alt)
qed









lemma class_bounds:
  "list_min_block_size 12 = 2 ^ 19 \<and> list_max_block_size 12 = 4294967296 - 1 \<and>
   (\<forall>i. 13 \<le> i \<and> i \<le> 27 \<longrightarrow>
      list_min_block_size i = 2 ^ (31 - i) \<and> list_max_block_size i = 2 ^ (32 - i))"
  by (simp add: list_min_block_size_def list_max_block_size_def)





section \<open>Reallocation to a smaller size\<close>

lemma aligned_and_not7:
  fixes sz :: "32 word"
  assumes "sz AND 7 = 0"
  shows "sz AND 0xfffffff8 = sz"
proof -
  have "sz AND NOT (mask 3) = sz - take_bit 3 sz"
    by (rule and_not_mask_diff)
  moreover have "take_bit 3 sz = sz AND 7"
    by (simp add: take_bit_eq_mask mask_numeral)
  moreover have "NOT (mask 3 :: 32 word) = 0xfffffff8"
    by (simp add: mask_numeral)
  ultimately show ?thesis
    using assms by simp
qed

lemma header_size:
  fixes sz :: "32 word"
  assumes "sz AND 7 = 0"
  shows "(sz OR (h AND 7)) AND 0xfffffff8 = sz"
    and "((sz OR (h AND 7)) OR 2) AND 0xfffffff8 = sz"
  using aligned_and_not7 [OF assms] by (simp_all add: flag_norm)

lemma align_size_aligned: "align_size sz AND 7 = 0"
  by (simp add: align_size_def Let_def and.assoc)

lemma get_size_aligned: "get_size m p AND 7 = 0"
  by (simp add: get_size_def and.assoc)

lemma align_size_ge: "16 \<le> align_size sz"
  by (simp add: align_size_def Let_def not_less)


lemma aligned_diff:
  fixes a b :: "32 word"
  assumes "a AND 7 = 0" "b AND 7 = 0" "b \<le> a"
  shows "(a - b) AND 7 = 0"
proof -
  have m: "(7 :: 32 word) = mask 3" by (simp add: mask_numeral)
  from assms(1,2) have "2 ^ 3 dvd unat a" "2 ^ 3 dvd unat b"
    unfolding m by (simp_all only: and_mask_dvd_nat)
  then have "2 ^ 3 dvd unat a - unat b"
    by (rule dvd_diff_nat)
  moreover from assms(3) have "unat (a - b) = unat a - unat b"
    by (rule unat_sub)
  ultimately have "2 ^ 3 dvd unat (a - b)"
    by simp
  then show ?thesis
    unfolding m by (simp only: and_mask_dvd_nat)
qed

lemma insert_block_some:
  assumes "16 \<le> sz"
  shows "\<exists>m'. insert_block m p sz = Some m'"
proof -
  have "begins (get_index sz) = Some (heap_base_ptr + 8 * (27 - size_class sz))"
    using assms by (rule begins_size_class)
  moreover have "heap_base_ptr + 8 * (27 - size_class sz) \<noteq> 0"
    by (simp add: heap_base_ptr_def)
  ultimately show ?thesis
    by (simp add: insert_block_def Let_def)
qed


lemma shrink_returns:
  assumes a: "asz AND 7 = 0" "bs AND 7 = 0" "16 \<le> asz" "asz \<le> bs" "8 \<le> p"
    and nw: "unat bs + unat (get_size m (p + unat bs)) < 4294967296"
  shows "\<exists>m'. shrink m asz p bs = Some (p, m')"
proof (cases "bs - asz < 16")
  case True
  then show ?thesis
    by (simp add: shrink_def)
next
  case False
  define remain where "remain = bs - asz"
  define m1 where "m1 = set_size_only_header m p asz"
  define nb where "nb = get_back m1 p"
  define m2 where "m2 = unset_allocated_flag m1 nb"
  define m3 where "m3 = set_size m2 nb remain"
  define m4 where "m4 = set_forward_allocated_flag m3 nb"
  define bnb where "bnb = get_back m4 nb"
  from False have r16: "16 \<le> remain"
    by (simp add: remain_def not_less)
  have ra: "remain AND 7 = 0"
    unfolding remain_def using a(2,1,4) by (rule aligned_diff)
  have ur: "unat remain = unat bs - unat asz"
    unfolding remain_def using a(4) by (rule unat_sub)
  from a(3) have ua: "16 \<le> unat asz"
    by (simp add: word_le_nat_alt)
  from a(4) have ub: "unat asz \<le> unat bs"
    by (simp add: word_le_nat_alt)
  from r16 have ur16: "16 \<le> unat remain"
    by (simp add: word_le_nat_alt)
  have gs1: "get_size m1 p = asz"
    by (simp add: m1_def set_size_only_header_def get_size_def get_header_def set_header_def
        read_word_def write_word_def header_size(1) [OF a(1)])
  then have nb: "nb = p + unat asz"
    by (simp add: nb_def get_back_def)
  have nb8: "8 \<le> nb"
    using a(5) by (simp add: nb)
  have ne1: "nb - 4 \<noteq> nb + unat remain - 8"
    using ur16 nb8 by arith
  have h4: "get_header m4 nb = (remain OR (get_header m2 nb AND 7)) OR 2"
    using ne1
    by (simp add: m4_def m3_def set_forward_allocated_flag_def set_size_def get_header_def
        set_header_def read_word_def write_word_def Let_def)
  then have gs4: "get_size m4 nb = remain"
    by (simp only: get_size_def header_size(2) [OF ra])
  then have bnb: "bnb = p + unat bs"
    using ub by (simp add: bnb_def get_back_def nb ur)
  have ne2: "bnb - 4 \<noteq> nb - 4" "bnb - 4 \<noteq> nb + unat remain - 8" "bnb - 4 \<noteq> p - 4"
    using ua ub ur16 a(5) unfolding bnb nb ur by arith+
  have hb: "get_header m4 bnb = get_header m bnb"
    using ne2
    by (simp add: m4_def m3_def m2_def m1_def set_forward_allocated_flag_def set_size_def
        unset_allocated_flag_def set_size_only_header_def get_header_def set_header_def
        read_word_def write_word_def Let_def)
  show ?thesis
  proof (cases "is_allocated m4 bnb")
    case True
    obtain m5 where "insert_block m4 nb remain = Some m5"
      using insert_block_some [OF r16] by blast
    with True False show ?thesis
      by (simp add: shrink_def Let_def flip: remain_def m1_def nb_def m2_def m3_def m4_def bnb_def)
  next
    case na: False
    define new_size where "new_size = remain + get_size m4 bnb"
    have "get_size m4 bnb = get_size m (p + unat bs)"
      by (simp only: get_size_def hb) (simp add: bnb)
    with nw ub have "unat remain + unat (get_size m4 bnb) < 4294967296"
      by (simp add: ur)
    then have "unat new_size = unat remain + unat (get_size m4 bnb)"
      by (simp add: new_size_def unat_add_lem [THEN iffD1])
    with ur16 have "16 \<le> new_size"
      by (simp add: word_le_nat_alt)
    then obtain m7 where
      "insert_block (set_size (delete_block m4 bnb) nb new_size) nb new_size = Some m7"
      using insert_block_some by blast
    with na False show ?thesis
      by (simp add: shrink_def Let_def
          flip: remain_def m1_def nb_def m2_def m3_def m4_def bnb_def new_size_def)
  qed
qed

lemma aligned_dvd:
  fixes a :: "32 word"
  assumes "a AND 7 = 0"
  shows "8 dvd unat a"
proof -
  have m: "(7 :: 32 word) = mask 3" by (simp add: mask_numeral)
  from assms have "2 ^ 3 dvd unat a"
    unfolding m by (simp only: and_mask_dvd_nat)
  then show ?thesis by simp
qed

lemma floor8_le:
  fixes x b :: int
  assumes "8 dvd b" and "x \<le> b + 7"
  shows "x - x mod 8 \<le> b"
proof -
  from assms(1) obtain k where k: "b = 8 * k" by (rule dvdE)
  have "x div 8 \<le> (8 * k + 7) div 8"
    using assms(2) unfolding k by (intro zdiv_mono1) simp_all
  also have "\<dots> = k" by simp
  finally have "8 * (x div 8) \<le> 8 * k" by simp
  then show ?thesis
    unfolding k by (simp add: minus_mod_eq_mult_div)
qed

lemma aligned_max:
  fixes a :: "32 word"
  assumes "a AND 7 = 0"
  shows "unat a \<le> 4294967288"
proof -
  from aligned_dvd [OF assms] obtain k where k: "unat a = 8 * k" by (rule dvdE)
  have "unat a < 4294967296" using unsigned_less [of a, where ?'a = nat] by simp
  then show ?thesis unfolding k by simp
qed

lemma unat_le_uint: "unat (a :: 'a::len word) \<le> n \<Longrightarrow> uint a \<le> int n"
  by (simp only: unat_eq_nat_uint nat_le_iff)

lemma uint_le_unat: "uint (a :: 'a::len word) \<le> int n \<Longrightarrow> unat a \<le> n"
  by (simp only: unat_eq_nat_uint nat_le_iff)

lemma unat_ge_uint: "n \<le> unat (a :: 'a::len word) \<Longrightarrow> int n \<le> uint a"
  by (simp only: unat_eq_nat_uint le_nat_iff [OF uint_ge_0])

lemma dvd_uint: "8 dvd unat (a :: 'a::len word) \<Longrightarrow> 8 dvd uint a"
proof -
  assume "8 dvd unat a"
  then have "int 8 dvd int (unat a)" by (simp only: int_dvd_int_iff)
  then show ?thesis by (simp only: uint_nat) simp
qed


lemma align_size_le:
  assumes "sz \<noteq> 448" and "unat sz + 4 \<le> unat bs" and "bs AND 7 = 0" and "16 \<le> bs"
  shows "align_size sz \<le> bs"
proof -
  have d: "8 dvd unat bs" using assms(3) by (rule aligned_dvd)
  have "unat bs \<le> 4294967288" using assms(3) by (rule aligned_max)
  with assms(2) have s: "unat sz \<le> 4294967284" by simp
  then have "uint sz \<le> int 4294967284"
    by (rule unat_le_uint)
  then have "uint sz \<le> 4294967284"
    by simp
  with assms(1) have "uint (align_size sz) = spec_align (uint sz)"
    by (rule align_size_small)
  also have "\<dots> = max 16 ((uint sz + 11) - (uint sz + 11) mod 8)"
    by (simp only: spec_align_def int_and_not7) (simp add: add.assoc)
  also have "\<dots> \<le> uint bs"
  proof -
    from assms(4) have 1: "16 \<le> uint bs" by (simp add: word_le_def)
    from d have 2: "8 dvd uint bs" by (rule dvd_uint)
    from assms(2) have "int (unat sz + 4) \<le> uint bs" by (rule unat_ge_uint)
    moreover have "uint sz = int (unat sz)" by (rule uint_nat)
    ultimately have "uint sz + 11 \<le> uint bs + 7" by (simp only: of_nat_add)
    with 2 have "(uint sz + 11) - (uint sz + 11) mod 8 \<le> uint bs" by (rule floor8_le)
    with 1 show ?thesis by simp
  qed
  finally show ?thesis
    by (simp add: word_le_def)
qed

text \<open>
  Claim C4 as stated fails for two requests. \<^verbatim>\<open>mm_realloc(p, 0)\<close> frees the block and
  returns \<^verbatim>\<open>NULL\<close>: here \<open>p\<close> is a block of 104 bytes and \<open>0 \<le> 104 - 4\<close>. And 448 is
  aligned to 520, more than the 456 bytes of a block that \<^verbatim>\<open>mm_malloc(450)\<close> returned
  (\<open>448 \<le> 456 - 4\<close>): with an allocated block behind it the block is moved, from offset
  136 to offset 616.
\<close>

theorem realloc_zero_or_448_counterexample:
  "map_option fst (run_fresh (\<lambda>_. 0) 4096 [Malloc 100, Realloc (heap_base_ptr + 136) 0]) =
     Some [(heap_base_ptr + 136, Some [(136, 104, True), (240, 3856, False)]),
           (0, Some [(136, 3960, False)])] \<and>
   map_option fst
     (run_fresh (\<lambda>_. 0) 4096 [Malloc 450, Malloc 16, Realloc (heap_base_ptr + 136) 448]) =
     Some [(heap_base_ptr + 136, Some [(136, 456, True), (592, 3504, False)]),
           (heap_base_ptr + 592, Some [(136, 456, True), (592, 24, True), (616, 3480, False)]),
           (heap_base_ptr + 616,
            Some [(136, 456, False), (592, 24, True), (616, 520, True), (1136, 2960, False)])]"
  by (simp add: run_defs memcpy_def in_heap_def split del: if_split cong: let_weak_cong)

text \<open>
  Claim C4, amended: for a block \<open>p\<close> of the heap of at least 16 bytes and every request
  \<open>n\<close> other than 0 and 448 with \<open>n \<le> size(p) - 4\<close>, \<^verbatim>\<open>mm_realloc(p, n)\<close> returns \<open>p\<close>.
  The last hypothesis says that the sizes of the block and of the block behind it do not
  add up to \<open>2^32\<close> or more, as in every heap of less than 4 GiB; with it the merge of the
  split-off rest with a free block behind it cannot wrap around.
\<close>

theorem realloc_shrinks_in_place:
  assumes "heap_base_ptr \<le> p" and "sz \<noteq> 0" and "sz \<noteq> 448"
    and "unat sz + 4 \<le> unat (get_size (mem s) p)"
    and "16 \<le> get_size (mem s) p"
    and "unat (get_size (mem s) p) + unat (get_size (mem s) (get_back (mem s) p)) < 4294967296"
  shows "\<exists>s'. mm_realloc s p sz = Some (p, s')"
proof -
  let ?bs = "get_size (mem s) p"
  have le: "align_size sz \<le> ?bs"
    using assms(3,4) get_size_aligned assms(5) by (rule align_size_le)
  have p8: "8 \<le> p" and p0: "p \<noteq> 0"
    using assms(1) by (simp_all add: heap_base_ptr_def)
  from assms(6) have nw: "unat ?bs + unat (get_size (mem s) (p + unat ?bs)) < 4294967296"
    by (simp add: get_back_def)
  have "\<exists>m'. shrink (mem s) (align_size sz) p ?bs = Some (p, m')"
    using align_size_aligned get_size_aligned align_size_ge le p8 nw by (rule shrink_returns)
  then obtain m' where "shrink (mem s) (align_size sz) p ?bs = Some (p, m')" ..
  with p0 assms(2) le show ?thesis
    by (simp add: mm_realloc_def Let_def)
qed

theorem realloc_shrinks_in_place_witness:
  "heap_base_ptr \<le> heap_base_ptr + 136 \<and> (50 :: 64 word) \<noteq> 0 \<and> (50 :: 64 word) \<noteq> 448 \<and>
   get_size (mem two_blocks) (heap_base_ptr + 136) = 104 \<and>
   unat (50 :: 64 word) + 4 \<le> unat (get_size (mem two_blocks) (heap_base_ptr + 136)) \<and>
   get_size (mem two_blocks) (get_back (mem two_blocks) (heap_base_ptr + 136)) = 104 \<and>
   (\<exists>s'. mm_realloc two_blocks (heap_base_ptr + 136) 50 = Some (heap_base_ptr + 136, s'))"
proof -
  have g: "get_size (mem two_blocks) (heap_base_ptr + 136) = 104"
    by (simp add: two_blocks_def run_defs split del: if_split cong: let_weak_cong)
  have b: "get_size (mem two_blocks) (get_back (mem two_blocks) (heap_base_ptr + 136)) = 104"
    by (simp add: two_blocks_def run_defs split del: if_split cong: let_weak_cong)
  have h1: "heap_base_ptr \<le> heap_base_ptr + 136"
    and h2: "(50 :: 64 word) \<noteq> 0" and h3: "(50 :: 64 word) \<noteq> 448"
    by simp_all
  have h4: "unat (50 :: 64 word) + 4 \<le> unat (get_size (mem two_blocks) (heap_base_ptr + 136))"
    by (simp add: g)
  have h5: "16 \<le> get_size (mem two_blocks) (heap_base_ptr + 136)"
    by (simp add: g)
  have h6: "unat (get_size (mem two_blocks) (heap_base_ptr + 136)) +
      unat (get_size (mem two_blocks) (get_back (mem two_blocks) (heap_base_ptr + 136))) < 4294967296"
    by (simp add: g b)
  note t = realloc_shrinks_in_place [OF h1 h2 h3 h4 h5 h6]
  with g b h1 h2 h3 h4 show ?thesis
    by (intro conjI)
qed

end
